theory Spec2Isabelle
  imports Main "HOL-Library.AList" "HOL-Library.Multiset"
begin

section \<open>Shared vocabulary\<close>

text \<open>
  A JavaScript error is its constructor and its message. A promise that has settled is
  either fulfilled or rejected; \<open>asWinJsPromise\<close> turns a callback that throws into a
  rejected promise, so a provider call has three outcomes.
\<close>

datatype error = Error string | TypeError string | RangeError string

datatype 'a outcome = Throws error | Rejects error | Resolves 'a

section \<open>Document symbols: \<open>vs/editor/contrib/quickOpen/quickOpen.ts\<close>\<close>

record IRange =
  startLineNumber :: int
  startColumn :: int
  endLineNumber :: int
  endColumn :: int

text \<open>
  Nothing checks what a provider returns: a location may lack its range, an entry its
  location (\<open>None\<close>: the property is missing), and \<open>containerName\<close> is optional anyway.
\<close>

record Location =
  uri :: string
  range_of :: "IRange option"

record SymbolInformation =
  kind :: nat
  location :: "Location option"
  name :: string
  containerName :: "string option"

record IOutline =
  entries :: "SymbolInformation list"

text \<open>
  What \<open>provideDocumentSymbols\<close> resolves to: an array, or anything else. An element of
  the array is an entry object, or \<open>null\<close> or \<open>undefined\<close> (\<open>None\<close>).
\<close>

datatype provide_result = IsArray "SymbolInformation option list" | NotArray

type_synonym 'm DocumentSymbolProvider = "'m \<Rightarrow> provide_result outcome"

text \<open>
  Modelled from the spec: \<open>Range.lift\<close> belongs to \<open>vs/editor/common/core/range\<close>, which
  is not among the sources. The spec takes ranges as given: the lifted range has the
  same four numbers, and a missing range stays missing.
\<close>

definition lift :: "IRange option \<Rightarrow> IRange option" where
  "lift r = r"

text \<open>
  Modelled from the spec: \<open>Range.compareRangesUsingStarts\<close> belongs to
  \<open>vs/editor/common/core/range\<close>, which is not among the sources. The spec orders entries
  by range start position, line then column, and breaks no further ties. Reading the start
  of a missing range is a \<open>TypeError\<close>.
\<close>

definition compareRangesUsingStarts :: "IRange option \<Rightarrow> IRange option \<Rightarrow> error + int" where
  "compareRangesUsingStarts a b =
     (case a of
        None \<Rightarrow> Inl (TypeError ''Cannot read property startLineNumber of null'')
      | Some ra \<Rightarrow>
          (case b of
             None \<Rightarrow> Inl (TypeError ''Cannot read property startLineNumber of null'')
           | Some rb \<Rightarrow>
               Inr (if startLineNumber ra = startLineNumber rb then startColumn ra - startColumn rb
                    else startLineNumber ra - startLineNumber rb)))"

text \<open>
  \<open>compareEntriesUsingStart\<close>: \<open>a.location.range\<close> is read first, then \<open>b.location.range\<close>;
  reading \<open>range\<close> of a missing location is a \<open>TypeError\<close>.
\<close>

definition compareEntriesUsingStart :: "SymbolInformation \<Rightarrow> SymbolInformation \<Rightarrow> error + int" where
  "compareEntriesUsingStart a b =
     (case location a of
        None \<Rightarrow> Inl (TypeError ''Cannot read property range of undefined'')
      | Some la \<Rightarrow>
          (case location b of
             None \<Rightarrow> Inl (TypeError ''Cannot read property range of undefined'')
           | Some lb \<Rightarrow> compareRangesUsingStarts (lift (range_of la)) (lift (range_of lb))))"

text \<open>\<open>entry.containerName || overrideContainerLabel\<close>: an absent or empty name is falsy.\<close>

definition or_label :: "string option \<Rightarrow> string \<Rightarrow> string" where
  "or_label c overrideContainerLabel =
     (case c of None \<Rightarrow> overrideContainerLabel
      | Some s \<Rightarrow> if s = [] then overrideContainerLabel else s)"

text \<open>
  The loop of \<open>flatten\<close> over entries that are objects: one object literal pushed on the
  bucket per entry. (An entry that is \<open>null\<close> or \<open>undefined\<close> makes \<open>entry.kind\<close> throw;
  the bucket is local to the caller, which is where that error is raised below.)
\<close>

fun flatten :: "SymbolInformation list \<Rightarrow> SymbolInformation list \<Rightarrow> string \<Rightarrow> SymbolInformation list" where
  "flatten bucket [] overrideContainerLabel = bucket"
| "flatten bucket (entry # rest) overrideContainerLabel =
     flatten
       (bucket @ [\<lparr>kind = kind entry, location = location entry, name = name entry,
                   containerName = Some (or_label (containerName entry) overrideContainerLabel)\<rparr>])
       rest overrideContainerLabel"

text \<open>
  \<open>Array.prototype.sort\<close> with a comparator, as an insertion sort: \<open>x\<close> goes before the
  first element it does not compare greater than. A comparator that throws ends the sort
  with its error. An array of fewer than two elements is never compared.
\<close>

fun insert_by :: "('a \<Rightarrow> 'a \<Rightarrow> error + int) \<Rightarrow> 'a \<Rightarrow> 'a list \<Rightarrow> error + 'a list" where
  "insert_by cmp x [] = Inr [x]"
| "insert_by cmp x (y # ys) =
     (case cmp x y of
        Inl err \<Rightarrow> Inl err
      | Inr c \<Rightarrow>
          if c \<le> 0 then Inr (x # y # ys)
          else (case insert_by cmp x ys of Inl err \<Rightarrow> Inl err | Inr r \<Rightarrow> Inr (y # r)))"

fun sort_by :: "('a \<Rightarrow> 'a \<Rightarrow> error + int) \<Rightarrow> 'a list \<Rightarrow> error + 'a list" where
  "sort_by cmp [] = Inr []"
| "sort_by cmp (x # xs) =
     (case sort_by cmp xs of Inl err \<Rightarrow> Inl err | Inr rest \<Rightarrow> insert_by cmp x rest)"

text \<open>
  The two handlers of \<open>.then\<close> on one provider's promise, acting on the shared \<open>entries\<close>
  array, on the sink of \<open>onUnexpectedExternalError\<close> and on the errors that reject the
  promise returned by \<open>.then\<close>. The success handler is not covered by the error handler:
  \<open>entries.push(...result)\<close> passes every element as an argument of one call, and a call
  with more arguments than the engine allows (\<open>max_arguments\<close>) throws a \<open>RangeError\<close>.
\<close>

fun provider_settled ::
  "nat \<Rightarrow> SymbolInformation option list \<times> error list \<times> error list \<Rightarrow> provide_result outcome \<Rightarrow>
   SymbolInformation option list \<times> error list \<times> error list" where
  "provider_settled max_arguments (es, sink, rejected) (Resolves (IsArray result)) =
     (if length result > max_arguments
      then (es, sink, rejected @ [RangeError ''Maximum call stack size exceeded''])
      else (es @ result, sink, rejected))"
| "provider_settled max_arguments (es, sink, rejected) (Resolves NotArray) = (es, sink, rejected)"
| "provider_settled max_arguments (es, sink, rejected) (Throws err) = (es, sink @ [err], rejected)"
| "provider_settled max_arguments (es, sink, rejected) (Rejects err) = (es, sink @ [err], rejected)"

text \<open>
  \<open>getDocumentSymbols\<close>: the registry is the function \<open>DocumentSymbolProviderRegistry.all\<close>;
  the result is the sink of reported errors and the promise's outcome. The provider calls
  run concurrently, so their handlers run in the order the promises settle:
  \<open>settle_order\<close> is that order, a rearrangement of the list of promises chosen by the
  scheduler. \<open>TPromise.join\<close> continues once all of them have settled, and rejects with
  the errors when one of them was rejected. In the continuation, \<open>flatten\<close> throws on an
  entry that is \<open>null\<close> or \<open>undefined\<close> and the comparator of \<open>sort\<close> may throw; either
  rejects the promise.
\<close>

definition getDocumentSymbols ::
  "nat \<Rightarrow> (provide_result outcome list \<Rightarrow> provide_result outcome list) \<Rightarrow>
   ('m \<Rightarrow> 'm DocumentSymbolProvider list) \<Rightarrow> 'm \<Rightarrow> error list \<times> (error list + IOutline)" where
  "getDocumentSymbols max_arguments settle_order registry_all model =
     (let promises = map (\<lambda>support. support model) (registry_all model);
          (es, sink, rejected) =
             foldl (provider_settled max_arguments) ([], [], []) (settle_order promises)
      in if rejected \<noteq> [] then (sink, Inl rejected)
         else (case those es of
                 None \<Rightarrow> (sink, Inl [TypeError ''Cannot read property kind of undefined''])
               | Some objs \<Rightarrow>
                   (let flatEntries = flatten [] objs []
                    in case sort_by compareEntriesUsingStart flatEntries of
                         Inl err \<Rightarrow> (sink, Inl [err])
                       | Inr sortedEntries \<Rightarrow> (sink, Inr \<lparr>entries = sortedEntries\<rparr>))))"

text \<open>
  Vocabulary of the claims about the aggregator: the array a provider call contributed,
  the error it reported to the sink, whether its array is too long for one call, the
  entries of an array that are objects, and whether an entry has a location with a range.
\<close>

fun provided :: "provide_result outcome \<Rightarrow> SymbolInformation option list" where
  "provided (Resolves (IsArray result)) = result"
| "provided _ = []"

fun failure :: "provide_result outcome \<Rightarrow> error list" where
  "failure (Throws err) = [err]"
| "failure (Rejects err) = [err]"
| "failure _ = []"

definition too_long :: "nat \<Rightarrow> provide_result outcome \<Rightarrow> bool" where
  "too_long max_arguments out = (max_arguments < length (provided out))"

fun entry_objects :: "SymbolInformation option list \<Rightarrow> SymbolInformation list" where
  "entry_objects [] = []"
| "entry_objects (None # rest) = entry_objects rest"
| "entry_objects (Some entry # rest) = entry # entry_objects rest"

definition located :: "SymbolInformation option \<Rightarrow> bool" where
  "located e =
     (case e of None \<Rightarrow> False
      | Some entry \<Rightarrow>
          (case location entry of None \<Rightarrow> False | Some l \<Rightarrow> range_of l \<noteq> None))"

definition start_of :: "SymbolInformation \<Rightarrow> (int \<times> int) option" where
  "start_of entry =
     (case location entry of None \<Rightarrow> None
      | Some l \<Rightarrow>
          (case range_of l of None \<Rightarrow> None
           | Some r \<Rightarrow> Some (startLineNumber r, startColumn r)))"

definition starts_no_later :: "SymbolInformation \<Rightarrow> SymbolInformation \<Rightarrow> bool" where
  "starts_no_later a b =
     (case start_of a of None \<Rightarrow> False
      | Some (la, ca) \<Rightarrow>
          (case start_of b of None \<Rightarrow> False
           | Some (lb, cb) \<Rightarrow> la < lb \<or> (la = lb \<and> ca \<le> cb)))"

section \<open>Tree views: \<open>sql/workbench/api/node/extHostModelViewTree.ts\<close>\<close>

subsection \<open>Values, objects and the provider\<close>

text \<open>
  The element type \<open>T\<close> is any JavaScript value; the source tests elements and handles for
  truthiness. Numbers are integers here. An object is its own enumerable properties.
\<close>

datatype jsvalue = Undefined | Null | Bool bool | Num int | Str string | Obj nat

fun truthy :: "jsvalue \<Rightarrow> bool" where
  "truthy Undefined = False"
| "truthy Null = False"
| "truthy (Bool b) = b"
| "truthy (Num n) = (n \<noteq> 0)"
| "truthy (Str s) = (s \<noteq> [])"
| "truthy (Obj a) = True"

type_synonym obj = "string \<rightharpoonup> jsvalue"

type_synonym TreeItemHandle = string

text \<open>Reading a property: an absent one is \<open>undefined\<close>.\<close>

definition get_prop :: "obj \<Rightarrow> string \<Rightarrow> jsvalue" where
  "get_prop ob k = (case ob k of None \<Rightarrow> Undefined | Some v \<Rightarrow> v)"

text \<open>An optional handle is falsy when it is absent or the empty string.\<close>

definition truthy_handle :: "TreeItemHandle option \<Rightarrow> bool" where
  "truthy_handle h = (case h of None \<Rightarrow> False | Some s \<Rightarrow> s \<noteq> [])"

text \<open>
  Modelled from the spec: the declaration of \<open>sqlops.TreeComponentDataProvider\<close> is not
  among the sources. The spec lists its capabilities: \<open>getTreeItem\<close>, and the optional
  \<open>getParent\<close> and \<open>onNodeCheckedChanged\<close> (\<open>None\<close>: the provider has no such function).
  \<open>getTreeItem\<close> resolves to a tree item or to nothing; the handler of
  \<open>onNodeCheckedChanged\<close> returns the error it throws, if any.
\<close>

record TreeComponentDataProvider =
  getTreeItem :: "jsvalue \<Rightarrow> obj option outcome"
  getParent :: "(jsvalue \<Rightarrow> jsvalue outcome) option"
  checkedChanged :: "(jsvalue \<Rightarrow> bool option \<Rightarrow> error option) option"

text \<open>
  Modelled from the spec: \<open>TreeNode\<close> is declared in \<open>vs/workbench/api/node/extHostTreeViews\<close>,
  which is not among the sources. The spec gives it an element, a parent node or none, a
  display item and an optional list of child handles. The display item is an object of the
  store, held by its address.
\<close>

datatype TreeNode =
  TreeNode (element: jsvalue) (parent: "TreeNode option") (item: nat)
    (children: "TreeItemHandle list option")

text \<open>
  A tree view: its own fields (\<open>handle\<close>, \<open>componentId\<close>, \<open>componentDataProvider\<close>) and the
  two maps of the base class, \<open>elements\<close> from handles to elements and \<open>nodes\<close> from
  elements to nodes. A JavaScript \<open>Map\<close> is an association list with distinct keys:
  \<open>get\<close> is \<open>map_of\<close>, \<open>set\<close> is \<open>AList.update\<close>, \<open>delete\<close> is \<open>AList.delete\<close>.
\<close>

record ExtHostTreeView =
  handle :: int
  componentId :: string
  componentDataProvider :: TreeComponentDataProvider
  elements :: "(TreeItemHandle \<times> jsvalue) list"
  nodes :: "(jsvalue \<times> TreeNode) list"

text \<open>
  Everything outside the views that the code acts on: the store of item objects
  (addresses are indices), the calls made on the host proxy, the lines written by
  \<open>console.error\<close> and the calls made on data providers. The items of a refresh are
  serialised when the proxy is called.
\<close>

datatype proxy_call = RefreshDataProvider int string "(TreeItemHandle \<times> obj) list option"

datatype provider_call = GetTreeItem jsvalue | OnNodeCheckedChanged jsvalue "bool option"

record world =
  objects :: "obj list"
  proxy_calls :: "proxy_call list"
  console_error :: "string list"
  provider_calls :: "provider_call list"

type_synonym base_projection = "ExtHostTreeView \<Rightarrow> jsvalue \<Rightarrow> obj \<Rightarrow> TreeNode option \<Rightarrow> obj"

subsection \<open>The object store\<close>

definition new_object :: "world \<Rightarrow> obj \<Rightarrow> world \<times> nat" where
  "new_object w ob = (w\<lparr>objects := objects w @ [ob]\<rparr>, length (objects w))"

text \<open>
  \<open>Object.assign(target, ...sources)\<close> copies the properties of each source, in order, onto
  the target object, in place.
\<close>

definition Object_assign :: "world \<Rightarrow> nat \<Rightarrow> nat list \<Rightarrow> world" where
  "Object_assign w target sources =
     w\<lparr>objects := (objects w)
         [target := foldl (\<lambda>t s. t ++ (objects w ! s)) (objects w ! target) sources]\<rparr>"

text \<open>
  Modelled from the spec: \<open>super.createTreeItem\<close> is the base projection of the base class,
  which is not among the sources. It builds a new item object; \<open>base_item\<close> gives its
  properties.
\<close>

definition super_createTreeItem ::
  "base_projection \<Rightarrow> ExtHostTreeView \<Rightarrow> world \<Rightarrow> jsvalue \<Rightarrow> obj \<Rightarrow> TreeNode option \<Rightarrow> world \<times> nat" where
  "super_createTreeItem base_item v w el extensionTreeItem par =
     new_object w (base_item v el extensionTreeItem par)"

text \<open>\<open>ExtHostTreeView.createTreeItem\<close>; the two object literals are new objects.\<close>

definition createTreeItem ::
  "base_projection \<Rightarrow> ExtHostTreeView \<Rightarrow> world \<Rightarrow> jsvalue \<Rightarrow> obj \<Rightarrow> TreeNode option \<Rightarrow> world \<times> nat" where
  "createTreeItem base_item v w el extensionTreeItem par =
     (let (w1, it) = super_createTreeItem base_item v w el extensionTreeItem par;
          (w2, target) = new_object w1 Map.empty;
          (w3, source) = new_object w2 [''checked'' \<mapsto> get_prop extensionTreeItem ''checked''];
          w4 = Object_assign w3 target [it, source]
      in (w4, target))"

subsection \<open>The node cache of the base class\<close>

text \<open>
  The methods of this subsection belong to the base class \<open>vsTreeExt.ExtHostTreeView\<close>
  (\<open>vs/workbench/api/node/extHostTreeViews\<close>), which is not among the sources.
\<close>

text \<open>
  Modelled from the spec: \<open>getExtensionElement\<close> of the missing base class. The spec has
  a handle resolve to its element; a handle that is not cached resolves to \<open>undefined\<close>.
\<close>

definition getExtensionElement :: "ExtHostTreeView \<Rightarrow> TreeItemHandle \<Rightarrow> jsvalue" where
  "getExtensionElement v treeItemHandle =
     (case map_of (elements v) treeItemHandle of None \<Rightarrow> Undefined | Some el \<Rightarrow> el)"

text \<open>
  Modelled from the spec: \<open>clearAll\<close> of the missing base class. The spec: it empties the
  cache entirely.
\<close>

definition clearAll :: "ExtHostTreeView \<Rightarrow> ExtHostTreeView" where
  "clearAll v = v\<lparr>elements := [], nodes := []\<rparr>"

text \<open>
  Modelled from the spec: \<open>getHandle\<close>, the cache operation of the spec that the missing
  base class provides: the reverse lookup from an element to its handle, or none. It is
  the first handle of the cache that resolves to the element.
\<close>

definition getHandle :: "ExtHostTreeView \<Rightarrow> jsvalue \<Rightarrow> TreeItemHandle option" where
  "getHandle v el = find (\<lambda>h. map_of (elements v) h = Some el) (map fst (elements v))"

text \<open>
  Modelled from the spec: \<open>getHandlesToRefresh\<close> of the missing base class. The spec: the
  affected elements are looked up, and those whose handle lookup fails are dropped.
\<close>

definition getHandlesToRefresh :: "ExtHostTreeView \<Rightarrow> jsvalue list \<Rightarrow> TreeItemHandle list" where
  "getHandlesToRefresh v els = List.map_filter (getHandle v) els"

text \<open>
  Modelled from the spec: \<open>createTreeNode\<close> of the missing base class. The spec: a node
  has the element, the parent it is created under, the display item projected from the
  element (by \<open>createTreeItem\<close>, the extension point) and no children yet.
\<close>

definition createTreeNode ::
  "base_projection \<Rightarrow> ExtHostTreeView \<Rightarrow> world \<Rightarrow> jsvalue \<Rightarrow> obj \<Rightarrow> TreeNode option \<Rightarrow> world \<times> TreeNode" where
  "createTreeNode base_item v w el extensionTreeItem par =
     (let (w', it) = createTreeItem base_item v w el extensionTreeItem par
      in (w', TreeNode el par it None))"

text \<open>
  Modelled from the spec: \<open>updateNodeCache\<close> of the missing base class, the spec's
  \<open>update(element, newItem, existingNode, parent)\<close>: it replaces the node of the element in
  place and preserves handle and parent linkage, so the map from handles is untouched.
\<close>

definition updateNodeCache ::
  "ExtHostTreeView \<Rightarrow> jsvalue \<Rightarrow> TreeNode \<Rightarrow> TreeNode \<Rightarrow> TreeNode option \<Rightarrow> ExtHostTreeView" where
  "updateNodeCache v el newNode existing parentNode =
     v\<lparr>nodes := AList.update el newNode (nodes v)\<rparr>"

text \<open>
  Modelled from the spec: \<open>dispose\<close> of the missing base class. The spec: the nodes are
  destroyed when the tree view is disposed.
\<close>

definition dispose :: "ExtHostTreeView \<Rightarrow> ExtHostTreeView" where
  "dispose v = clearAll v"

subsection \<open>\<open>ExtHostTreeView\<close>\<close>

text \<open>
  \<open>onNodeCheckedChanged\<close>: the result is the error the call throws, if any. Calling a
  function the provider does not have is a \<open>TypeError\<close>.
\<close>

definition onNodeCheckedChanged ::
  "ExtHostTreeView \<Rightarrow> world \<Rightarrow> TreeItemHandle option \<Rightarrow> bool option \<Rightarrow> world \<times> error option" where
  "onNodeCheckedChanged v w parentHandle checked =
     (let parentElement =
            (case parentHandle of
               None \<Rightarrow> Undefined
             | Some h \<Rightarrow> if h \<noteq> [] then getExtensionElement v h else Undefined);
          w1 = (case parentHandle of
                  None \<Rightarrow> w
                | Some h \<Rightarrow>
                    if h \<noteq> [] \<and> \<not> truthy parentElement
                    then w\<lparr>console_error := console_error w
                            @ [''No tree item with id '' @ [CHR 0x27] @ h @ [CHR 0x27]
                               @ '' found.'']\<rparr>
                    else w)
      in case checkedChanged (componentDataProvider v) of
           None \<Rightarrow>
             (w1, Some (TypeError ''this.componentDataProvider.onNodeCheckedChanged is not a function''))
         | Some handler \<Rightarrow>
             (w1\<lparr>provider_calls := provider_calls w1 @ [OnNodeCheckedChanged parentElement checked]\<rparr>,
              handler parentElement checked))"

text \<open>
  \<open>reveal\<close>: \<open>resolveUnknownParentChain\<close> and \<open>resolveTreeNode\<close> are methods of the base
  class that is not among the sources; they are parameters here. The promise resolves to
  \<open>void\<close>.
\<close>

definition reveal ::
  "(ExtHostTreeView \<Rightarrow> world \<Rightarrow> jsvalue \<Rightarrow> (ExtHostTreeView \<times> world) \<times> (error + TreeNode list)) \<Rightarrow>
   (ExtHostTreeView \<Rightarrow> world \<Rightarrow> jsvalue \<Rightarrow> TreeNode option \<Rightarrow> (ExtHostTreeView \<times> world) \<times> (error + TreeNode)) \<Rightarrow>
   ExtHostTreeView \<Rightarrow> world \<Rightarrow> jsvalue \<Rightarrow> bool option \<Rightarrow> (ExtHostTreeView \<times> world) \<times> (error + unit)" where
  "reveal resolveUnknownParentChain resolveTreeNode v w el select =
     (if getParent (componentDataProvider v) = None
      then ((v, w), Inl (Error (''Required registered TreeDataProvider to implement ''
              @ [CHR 0x27] @ ''getParent'' @ [CHR 0x27] @ '' method to access ''
              @ [CHR 0x27] @ ''reveal'' @ [CHR 0x27] @ '' method'')))
      else (case resolveUnknownParentChain v w el of
              (vw1, Inl err) \<Rightarrow> (vw1, Inl err)
            | ((v1, w1), Inr parentChain) \<Rightarrow>
                (case resolveTreeNode v1 w1 el
                        (if parentChain = [] then None else Some (last parentChain)) of
                   (vw2, Inl err) \<Rightarrow> (vw2, Inl err)
                 | (vw2, Inr treeNode) \<Rightarrow> (vw2, Inr ()))))"

text \<open>
  \<open>refreshNode\<close>: the provider is asked for the tree item of the element; reading
  \<open>existing.parent\<close> of a missing node is a \<open>TypeError\<close> inside the handler, which rejects
  the promise.
\<close>

definition refreshNode ::
  "base_projection \<Rightarrow> ExtHostTreeView \<Rightarrow> world \<Rightarrow> TreeItemHandle \<Rightarrow>
   (ExtHostTreeView \<times> world) \<times> (error + TreeNode option)" where
  "refreshNode base_item v w treeItemHandle =
     (let extElement = getExtensionElement v treeItemHandle;
          existing = map_of (nodes v) extElement;
          w1 = w\<lparr>provider_calls := provider_calls w @ [GetTreeItem extElement]\<rparr>
      in case getTreeItem (componentDataProvider v) extElement of
           Throws err \<Rightarrow> ((v, w1), Inl err)
         | Rejects err \<Rightarrow> ((v, w1), Inl err)
         | Resolves None \<Rightarrow> ((v, w1), Inr None)
         | Resolves (Some extTreeItem) \<Rightarrow>
             (case existing of
                None \<Rightarrow> ((v, w1), Inl (TypeError ''Cannot read property parent of undefined''))
              | Some ex \<Rightarrow>
                  (let (w2, newNode) = createTreeNode base_item v w1 extElement extTreeItem (parent ex);
                       v' = updateNodeCache v extElement newNode ex (parent ex)
                   in ((v', w2), Inr (Some newNode)))))"

text \<open>
  \<open>refreshHandles\<close>: \<open>refresh_each\<close> is the \<open>map\<close> over the handles, each \<open>refreshNode\<close>
  with its handler that stores the refreshed node's item in \<open>itemsToRefresh\<close>, one handle
  after the other. \<open>TPromise.join\<close> waits for all of them and rejects with the errors when
  one was rejected; otherwise the host is called once, if the object has a key.
\<close>

fun refresh_each ::
  "base_projection \<Rightarrow> ExtHostTreeView \<Rightarrow> world \<Rightarrow> (TreeItemHandle \<times> nat) list \<Rightarrow> error list \<Rightarrow>
   TreeItemHandle list \<Rightarrow> (ExtHostTreeView \<times> world) \<times> (TreeItemHandle \<times> nat) list \<times> error list" where
  "refresh_each base_item v w itemsToRefresh errs [] = ((v, w), itemsToRefresh, errs)"
| "refresh_each base_item v w itemsToRefresh errs (treeItemHandle # rest) =
     (case refreshNode base_item v w treeItemHandle of
        ((v', w'), Inl err) \<Rightarrow> refresh_each base_item v' w' itemsToRefresh (errs @ [err]) rest
      | ((v', w'), Inr None) \<Rightarrow> refresh_each base_item v' w' itemsToRefresh errs rest
      | ((v', w'), Inr (Some node)) \<Rightarrow>
          refresh_each base_item v' w'
            (AList.update treeItemHandle (item node) itemsToRefresh) errs rest)"

definition refreshHandles ::
  "base_projection \<Rightarrow> ExtHostTreeView \<Rightarrow> world \<Rightarrow> TreeItemHandle list \<Rightarrow>
   (ExtHostTreeView \<times> world) \<times> (error list + unit)" where
  "refreshHandles base_item v w itemHandles =
     (case refresh_each base_item v w [] [] itemHandles of
        ((v', w'), itemsToRefresh, errs) \<Rightarrow>
          if errs \<noteq> [] then ((v', w'), Inl errs)
          else if length itemsToRefresh \<noteq> 0
          then ((v', w'\<lparr>proxy_calls := proxy_calls w'
                   @ [RefreshDataProvider (handle v') (componentId v')
                        (Some (map (\<lambda>(h, a). (h, objects w' ! a)) itemsToRefresh))]\<rparr>),
                Inr ())
          else ((v', w'), Inr ()))"

text \<open>\<open>refresh\<close> returns nothing: the promise of \<open>refreshHandles\<close> is dropped.\<close>

definition refresh ::
  "base_projection \<Rightarrow> ExtHostTreeView \<Rightarrow> world \<Rightarrow> jsvalue list \<Rightarrow> ExtHostTreeView \<times> world" where
  "refresh base_item v w els =
     (let hasRoot = list_ex (\<lambda>el. \<not> truthy el) els
      in if hasRoot
         then (clearAll v,
               w\<lparr>proxy_calls := proxy_calls w @ [RefreshDataProvider (handle v) (componentId v) None]\<rparr>)
         else (let handlesToRefresh = getHandlesToRefresh v els
               in if length handlesToRefresh \<noteq> 0
                  then fst (refreshHandles base_item v w handlesToRefresh)
                  else (v, w)))"

subsection \<open>\<open>ExtHostModelViewTreeViews\<close>\<close>

text \<open>
  The registry: the map \<open>treeViews\<close> from ids to tree views. The views are objects shared
  between the map and the closures returned by \<open>$createTreeView\<close>, so they live in a store
  (\<open>views\<close>, addressed by index) and the map holds addresses. A view is never removed from
  the store, so an address held by the map or by a closure is always below the length of
  \<open>views\<close>.
\<close>

record ExtHostModelViewTreeViews =
  treeViews :: "(string \<times> nat) list"
  views :: "ExtHostTreeView list"

text \<open>The closure returned by \<open>$createTreeView\<close> captures \<open>treeView\<close> and \<open>componentId\<close>.\<close>

record TreeView =
  closure_treeView :: nat
  closure_componentId :: string

record TreeViewOptions =
  treeDataProvider :: "TreeComponentDataProvider option"

text \<open>
  A number in a template literal. View handles are integers, printed as their decimal
  digits; this holds for integers of magnitude below ten to the power 21; larger numbers and
  fractions, which print otherwise, are outside the model.
\<close>

fun string_of_nat :: "nat \<Rightarrow> string" where
  "string_of_nat n =
     (if n < 10 then [''0123456789'' ! n]
      else string_of_nat (n div 10) @ [''0123456789'' ! (n mod 10)])"

declare string_of_nat.simps [simp del]

definition string_of_number :: "int \<Rightarrow> string" where
  "string_of_number i =
     (if i < 0 then CHR ''-'' # string_of_nat (nat (- i)) else string_of_nat (nat i))"

text \<open>
  Modelled from the spec: the message formatting of \<open>vs/nls\<close>, which is not among the
  sources. The spec has the message carry the view id: each placeholder \<open>{n}\<close>, \<open>n\<close> a
  digit, is replaced by the \<open>n\<close>-th argument when there is one.
\<close>

fun format :: "string \<Rightarrow> string list \<Rightarrow> string" where
  "format (c1 # c2 # c3 # cs) args =
     (if c1 = CHR ''{'' \<and> c3 = CHR ''}'' \<and> (48::nat) \<le> of_char c2 \<and> (of_char c2 :: nat) \<le> 57
         \<and> (of_char c2 :: nat) - 48 < length args
      then args ! ((of_char c2 :: nat) - 48) @ format cs args
      else c1 # format (c2 # c3 # cs) args)"
| "format cs args = cs"

text \<open>
  Modelled from the spec: \<open>localize\<close> belongs to \<open>vs/nls\<close>, which is not among the sources.
  It formats the default message with the arguments; the message is not translated.
\<close>

definition localize :: "string \<Rightarrow> string \<Rightarrow> string list \<Rightarrow> string" where
  "localize key message args = format message args"

text \<open>The constructor: the cache of a new view is empty.\<close>

definition new_ExtHostTreeView :: "int \<Rightarrow> string \<Rightarrow> TreeComponentDataProvider \<Rightarrow> ExtHostTreeView" where
  "new_ExtHostTreeView h cid dataProvider =
     \<lparr>handle = h, componentId = cid, componentDataProvider = dataProvider,
      elements = [], nodes = []\<rparr>"

definition createExtHostTreeViewer ::
  "ExtHostModelViewTreeViews \<Rightarrow> int \<Rightarrow> string \<Rightarrow> TreeComponentDataProvider \<Rightarrow>
   ExtHostModelViewTreeViews \<times> nat" where
  "createExtHostTreeViewer s h cid dataProvider =
     (let treeView = length (views s);
          s1 = s\<lparr>views := views s @ [new_ExtHostTreeView h cid dataProvider]\<rparr>;
          s2 = s1\<lparr>treeViews :=
                 AList.update (string_of_number h @ ''-'' @ cid) treeView (treeViews s1)\<rparr>
      in (s2, treeView))"

text \<open>\<open>$createTreeView\<close>: \<open>options\<close> may be missing, and so may its provider.\<close>

definition dollar_createTreeView ::
  "ExtHostModelViewTreeViews \<Rightarrow> int \<Rightarrow> string \<Rightarrow> TreeViewOptions option \<Rightarrow>
   error + (ExtHostModelViewTreeViews \<times> TreeView)" where
  "dollar_createTreeView s h cid options =
     (case options of
        None \<Rightarrow> Inl (Error ''Options with treeDataProvider is mandatory'')
      | Some opts \<Rightarrow>
          (case treeDataProvider opts of
             None \<Rightarrow> Inl (Error ''Options with treeDataProvider is mandatory'')
           | Some dataProvider \<Rightarrow>
               (let (s', treeView) = createExtHostTreeViewer s h cid dataProvider
                in Inr (s', \<lparr>closure_treeView = treeView, closure_componentId = cid\<rparr>))))"

text \<open>The two functions of the returned view.\<close>

definition TreeView_reveal ::
  "(ExtHostTreeView \<Rightarrow> world \<Rightarrow> jsvalue \<Rightarrow> (ExtHostTreeView \<times> world) \<times> (error + TreeNode list)) \<Rightarrow>
   (ExtHostTreeView \<Rightarrow> world \<Rightarrow> jsvalue \<Rightarrow> TreeNode option \<Rightarrow> (ExtHostTreeView \<times> world) \<times> (error + TreeNode)) \<Rightarrow>
   TreeView \<Rightarrow> ExtHostModelViewTreeViews \<Rightarrow> world \<Rightarrow> jsvalue \<Rightarrow> bool option \<Rightarrow>
   (ExtHostModelViewTreeViews \<times> world) \<times> (error + unit)" where
  "TreeView_reveal resolveUnknownParentChain resolveTreeNode tv s w el select =
     (case reveal resolveUnknownParentChain resolveTreeNode
             (views s ! closure_treeView tv) w el select of
        ((v', w'), r) \<Rightarrow> ((s\<lparr>views := (views s)[closure_treeView tv := v']\<rparr>, w'), r))"

definition TreeView_dispose :: "TreeView \<Rightarrow> ExtHostModelViewTreeViews \<Rightarrow> ExtHostModelViewTreeViews" where
  "TreeView_dispose tv s =
     (let s1 = s\<lparr>treeViews := AList.delete (closure_componentId tv) (treeViews s)\<rparr>
      in s1\<lparr>views := (views s1)[closure_treeView tv := dispose (views s1 ! closure_treeView tv)]\<rparr>)"

text \<open>
  \<open>$getChildren\<close>: \<open>getChildren\<close> of a view is a method of the base class that is not among
  the sources; it is the parameter \<open>base_getChildren\<close>.
\<close>

definition dollar_getChildren ::
  "(ExtHostTreeView \<Rightarrow> world \<Rightarrow> TreeItemHandle option \<Rightarrow> (ExtHostTreeView \<times> world) \<times> (error + obj list)) \<Rightarrow>
   ExtHostModelViewTreeViews \<Rightarrow> world \<Rightarrow> string \<Rightarrow> TreeItemHandle option \<Rightarrow>
   (ExtHostModelViewTreeViews \<times> world) \<times> (error + obj list)" where
  "dollar_getChildren base_getChildren s w treeViewId treeItemHandle =
     (case map_of (treeViews s) treeViewId of
        None \<Rightarrow>
          ((s, w), Inl (Error (localize ''treeView.notRegistered''
             (''No tree view with id '' @ [CHR 0x27] @ ''{0}'' @ [CHR 0x27] @ '' registered.'')
             [treeViewId])))
      | Some treeView \<Rightarrow>
          (case base_getChildren (views s ! treeView) w treeItemHandle of
             ((v', w'), r) \<Rightarrow> ((s\<lparr>views := (views s)[treeView := v']\<rparr>, w'), r)))"

definition dollar_onNodeCheckedChanged ::
  "ExtHostModelViewTreeViews \<Rightarrow> world \<Rightarrow> string \<Rightarrow> TreeItemHandle option \<Rightarrow> bool option \<Rightarrow>
   world \<times> error option" where
  "dollar_onNodeCheckedChanged s w treeViewId treeItemHandle checked =
     (case map_of (treeViews s) treeViewId of
        None \<Rightarrow> (w, None)
      | Some treeView \<Rightarrow> onNodeCheckedChanged (views s ! treeView) w treeItemHandle checked)"

subsection \<open>Vocabulary of the claims about tree views\<close>




subsection \<open>Example inputs\<close>

text \<open>
  Inputs for the aggregator: three entries at lines 3, 5 and 7, the second with a
  container name; a registry of four providers, of which the first returns the entries of
  lines 7 and 3 in that order, the second rejects, the third returns the entry of line 5
  and the fourth resolves to something that is not an array; a registry whose second
  provider returns an array with a \<open>null\<close> entry; and one whose only provider returns an
  array of 200000 entries.
\<close>

definition entry_at :: "int \<Rightarrow> string \<Rightarrow> string option \<Rightarrow> SymbolInformation" where
  "entry_at line nm container =
     \<lparr>kind = 11,
      location = Some \<lparr>uri = ''file:///a.sql'',
                       range_of = Some \<lparr>startLineNumber = line, startColumn = 1,
                                        endLineNumber = line, endColumn = 9\<rparr>\<rparr>,
      name = nm, containerName = container\<rparr>"

definition example_providers :: "unit \<Rightarrow> unit DocumentSymbolProvider list" where
  "example_providers model =
     [\<lambda>m. Resolves (IsArray [Some (entry_at 7 ''baz'' None), Some (entry_at 3 ''foo'' (Some []))]),
      \<lambda>m. Rejects (Error ''boom''),
      \<lambda>m. Resolves (IsArray [Some (entry_at 5 ''bar'' (Some ''Box''))]),
      \<lambda>m. Resolves NotArray]"

definition null_entry_providers :: "unit \<Rightarrow> unit DocumentSymbolProvider list" where
  "null_entry_providers model =
     [\<lambda>m. Resolves (IsArray [Some (entry_at 3 ''foo'' None)]),
      \<lambda>m. Resolves (IsArray [None])]"

definition long_array_providers :: "unit \<Rightarrow> unit DocumentSymbolProvider list" where
  "long_array_providers model =
     [\<lambda>m. Resolves (IsArray (replicate 200000 (Some (entry_at 3 ''foo'' None))))]"

text \<open>
  A provider without \<open>getParent\<close> that knows the element \<open>a\<close> only, a view of component
  \<open>c\<close> with handle 1 that has cached the elements \<open>a\<close> and \<open>b\<close>, the store with their
  two items, and the registry that holds this view.
\<close>

definition example_provider :: TreeComponentDataProvider where
  "example_provider =
     \<lparr>getTreeItem = (\<lambda>el. if el = Str ''a''
                           then Resolves (Some [''label'' \<mapsto> Str ''A'', ''checked'' \<mapsto> Bool True])
                           else Resolves None),
      getParent = None,
      checkedChanged = Some (\<lambda>el c. None)\<rparr>"

definition example_base :: base_projection where
  "example_base v el x par = [''label'' \<mapsto> get_prop x ''label'']"

definition example_view :: ExtHostTreeView where
  "example_view =
     \<lparr>handle = 1, componentId = ''c'', componentDataProvider = example_provider,
      elements = [(''0/0:a'', Str ''a''), (''0/1:b'', Str ''b'')],
      nodes = [(Str ''a'', TreeNode (Str ''a'') None 0 None),
               (Str ''b'', TreeNode (Str ''b'') None 1 None)]\<rparr>"

definition example_world :: world where
  "example_world =
     \<lparr>objects = [[''label'' \<mapsto> Str ''a''], [''label'' \<mapsto> Str ''b'']],
      proxy_calls = [], console_error = [], provider_calls = []\<rparr>"

text \<open>
  Variants of these inputs: a view whose element \<open>b\<close> is a child of \<open>a\<close> and whose
  provider knows \<open>b\<close>; a view whose provider returns an item for \<open>a\<close> and rejects for
  \<open>b\<close>; and a registry whose view has a provider without \<open>onNodeCheckedChanged\<close>.
\<close>

definition child_view :: ExtHostTreeView where
  "child_view =
     \<lparr>handle = 1, componentId = ''c'',
      componentDataProvider =
        \<lparr>getTreeItem = (\<lambda>el. if el = Str ''b''
                              then Resolves (Some [''label'' \<mapsto> Str ''B'', ''checked'' \<mapsto> Bool False])
                              else Resolves None),
         getParent = None,
         checkedChanged = Some (\<lambda>el c. None)\<rparr>,
      elements = [(''0/0:a'', Str ''a''), (''0/0:a/0:b'', Str ''b'')],
      nodes = [(Str ''a'', TreeNode (Str ''a'') None 0 None),
               (Str ''b'', TreeNode (Str ''b'') (Some (TreeNode (Str ''a'') None 0 None)) 1 None)]\<rparr>"



definition example_registry :: ExtHostModelViewTreeViews where
  "example_registry = \<lparr>treeViews = [(''1-c'', 0)], views = [example_view]\<rparr>"

definition empty_registry :: ExtHostModelViewTreeViews where
  "empty_registry = \<lparr>treeViews = [], views = []\<rparr>"

text \<open>Stand-ins for the methods of the base class that are parameters.\<close>

definition example_getChildren ::
  "ExtHostTreeView \<Rightarrow> world \<Rightarrow> TreeItemHandle option \<Rightarrow> (ExtHostTreeView \<times> world) \<times> (error + obj list)" where
  "example_getChildren v w h = ((v, w), Inr [])"

definition example_parentChain ::
  "ExtHostTreeView \<Rightarrow> world \<Rightarrow> jsvalue \<Rightarrow> (ExtHostTreeView \<times> world) \<times> (error + TreeNode list)" where
  "example_parentChain v w el = ((v, w), Inr [])"

definition example_treeNode ::
  "ExtHostTreeView \<Rightarrow> world \<Rightarrow> jsvalue \<Rightarrow> TreeNode option \<Rightarrow> (ExtHostTreeView \<times> world) \<times> (error + TreeNode)" where
  "example_treeNode v w el par = ((v, w), Inr (TreeNode el par 0 None))"

section \<open>The symbol aggregator\<close>

lemma foldl_provider_settled:
  "foldl (provider_settled m) (es, sink, rejected) outs =
     (es @ concat (map (\<lambda>out. if too_long m out then [] else provided out) outs),
      sink @ concat (map failure outs),
      rejected @ concat (map (\<lambda>out. if too_long m out
                                     then [RangeError ''Maximum call stack size exceeded'']
                                     else []) outs))"
proof (induction outs arbitrary: es sink rejected)
  case Nil
  show ?case by simp
next
  case (Cons out outs)
  show ?case
  proof (cases out)
    case (Resolves r)
    then show ?thesis using Cons by (cases r) (simp_all add: too_long_def)
  qed (simp_all add: Cons too_long_def)
qed

lemma no_rejection:
  "\<not> list_ex (too_long m) outs \<Longrightarrow>
   concat (map (\<lambda>out. if too_long m out then [RangeError ''Maximum call stack size exceeded'']
                       else []) outs) = []
   \<and> concat (map (\<lambda>out. if too_long m out then [] else provided out) outs) =
       concat (map provided outs)"
  by (induction outs) simp_all

lemma some_rejection:
  "list_ex (too_long m) outs \<Longrightarrow>
   concat (map (\<lambda>out. if too_long m out then [RangeError ''Maximum call stack size exceeded'']
                       else []) outs) \<noteq> []"
  by (induction outs) auto

lemma getDocumentSymbols_value:
  "snd (getDocumentSymbols m settle_order registry_all model) =
     (let ps = settle_order (map (\<lambda>support. support model) (registry_all model))
      in if list_ex (too_long m) ps
         then Inl (concat (map (\<lambda>out. if too_long m out
                                        then [RangeError ''Maximum call stack size exceeded'']
                                        else []) ps))
         else (case those (concat (map provided ps)) of
                 None \<Rightarrow> Inl [TypeError ''Cannot read property kind of undefined'']
               | Some objs \<Rightarrow>
                   (case sort_by compareEntriesUsingStart (flatten [] objs []) of
                      Inl err \<Rightarrow> Inl [err]
                    | Inr sortedEntries \<Rightarrow> Inr \<lparr>entries = sortedEntries\<rparr>)))"
proof (cases "list_ex (too_long m) (settle_order (map (\<lambda>support. support model) (registry_all model)))")
  case True
  from some_rejection [OF True] True show ?thesis
    by (simp add: getDocumentSymbols_def Let_def foldl_provider_settled)
next
  case False
  from no_rejection [OF False] False show ?thesis
    by (simp add: getDocumentSymbols_def Let_def foldl_provider_settled
        split: option.splits sum.splits)
qed

lemma getDocumentSymbols_sink:
  "fst (getDocumentSymbols m settle_order registry_all model) =
     concat (map failure (settle_order (map (\<lambda>support. support model) (registry_all model))))"
  by (simp add: getDocumentSymbols_def Let_def foldl_provider_settled
      split: option.splits sum.splits)

lemma flatten_map:
  "flatten bucket es label =
     bucket @ map (\<lambda>entry. entry\<lparr>containerName := Some (or_label (containerName entry) label)\<rparr>) es"
  by (induction es arbitrary: bucket) simp_all

lemma those_located:
  "list_all located es \<Longrightarrow> those es = Some (entry_objects es)"
proof (induction es)
  case Nil
  show ?case by simp
next
  case (Cons e es)
  then show ?case by (cases e) (simp_all add: located_def)
qed

lemma start_of_located:
  "list_all located es \<Longrightarrow> list_all (\<lambda>entry. start_of entry \<noteq> None) (entry_objects es)"
proof (induction es)
  case Nil
  show ?case by simp
next
  case (Cons e es)
  then show ?case
    by (cases e) (auto simp: located_def start_of_def split: option.splits)
qed

lemma compare_starts:
  assumes "start_of a \<noteq> None" and "start_of b \<noteq> None"
  shows "\<exists>c. compareEntriesUsingStart a b = Inr c \<and> (c \<le> 0 \<longleftrightarrow> starts_no_later a b)"
  using assms
  by (auto simp: compareEntriesUsingStart_def compareRangesUsingStarts_def lift_def
      starts_no_later_def start_of_def split: option.splits)

lemma starts_total:
  "start_of a \<noteq> None \<Longrightarrow> start_of b \<noteq> None \<Longrightarrow> \<not> starts_no_later a b \<Longrightarrow> starts_no_later b a"
  by (auto simp: starts_no_later_def split: option.splits)

lemma starts_trans: "starts_no_later a b \<Longrightarrow> starts_no_later b c \<Longrightarrow> starts_no_later a c"
  by (auto simp: starts_no_later_def split: option.splits)

lemma insert_by_sorted:
  assumes "start_of x \<noteq> None" and "list_all (\<lambda>entry. start_of entry \<noteq> None) xs"
    and "sorted_wrt starts_no_later xs"
  shows "\<exists>r. insert_by compareEntriesUsingStart x xs = Inr r
           \<and> mset r = add_mset x (mset xs) \<and> set r = insert x (set xs)
           \<and> sorted_wrt starts_no_later r"
  using assms(2,3)
proof (induction xs)
  case Nil
  show ?case by simp
next
  case (Cons y ys)
  from Cons.prems have y: "start_of y \<noteq> None" by simp
  from compare_starts [OF assms(1) y] obtain c where
    c: "compareEntriesUsingStart x y = Inr c" "c \<le> 0 \<longleftrightarrow> starts_no_later x y" by blast
  show ?case
  proof (cases "c \<le> 0")
    case True
    with c have xy: "starts_no_later x y" by simp
    with Cons.prems c True show ?thesis by (auto intro: starts_trans)
  next
    case False
    with c have "\<not> starts_no_later x y" by simp
    with assms(1) y have yx: "starts_no_later y x" by (rule starts_total)
    from Cons.prems have "list_all (\<lambda>entry. start_of entry \<noteq> None) ys"
      "sorted_wrt starts_no_later ys" by simp_all
    from Cons.IH [OF this] obtain r where
      r: "insert_by compareEntriesUsingStart x ys = Inr r" "mset r = add_mset x (mset ys)"
      "set r = insert x (set ys)" "sorted_wrt starts_no_later r" by blast
    with Cons.prems c False yx show ?thesis by auto
  qed
qed

lemma sort_by_sorted:
  assumes "list_all (\<lambda>entry. start_of entry \<noteq> None) xs"
  shows "\<exists>r. sort_by compareEntriesUsingStart xs = Inr r
           \<and> mset r = mset xs \<and> sorted_wrt starts_no_later r"
  using assms
proof (induction xs)
  case Nil
  show ?case by simp
next
  case (Cons x xs)
  then obtain s where s: "sort_by compareEntriesUsingStart xs = Inr s" "mset s = mset xs"
    "sorted_wrt starts_no_later s" by auto
  from s(2) have "set s = set xs" by (rule mset_eq_setD)
  with Cons.prems have "list_all (\<lambda>entry. start_of entry \<noteq> None) s"
    by (simp add: list_all_iff)
  from insert_by_sorted [OF _ this s(3), of x] Cons.prems obtain r where
    "insert_by compareEntriesUsingStart x s = Inr r" "mset r = add_mset x (mset s)"
    "sorted_wrt starts_no_later r" by auto
  with s show ?case by simp
qed

lemma mset_concat_map_cong:
  assumes "mset xs = mset ys"
  shows "mset (concat (map f xs)) = mset (concat (map f ys))"
proof -
  have "mset (concat (map f zs)) = (\<Sum>z \<in># mset zs. mset (f z))" for zs
    by (induction zs) simp_all
  with assms show ?thesis by simp
qed

lemma entry_objects_append: "entry_objects (xs @ ys) = entry_objects xs @ entry_objects ys"
  by (induction xs rule: entry_objects.induct) simp_all

lemma entry_objects_concat:
  "entry_objects (concat xss) = concat (map entry_objects xss)"
  by (induction xss) (simp_all add: entry_objects_append)

lemma start_of_flat:
  "start_of (entry\<lparr>containerName := c\<rparr>) = start_of entry"
  by (simp add: start_of_def)


lemma flat_entry_explicit:
  "entry\<lparr>containerName := Some (or_label (containerName entry) [])\<rparr> =
     \<lparr>kind = kind entry, location = location entry, name = name entry,
      containerName = Some (case containerName entry of None \<Rightarrow> [] | Some c \<Rightarrow> c)\<rparr>"
  by (cases entry) (simp add: or_label_def split: option.splits)

text \<open>
  Claim C1, as amended. Let every array that a provider resolves to fit in one call
  (at most \<open>max_arguments\<close> elements) and hold only entry objects that have a location
  with a range. Then, whatever the order in which the provider calls settle, and however
  many of them throw, reject or resolve to something that is not an array,
  \<open>getDocumentSymbols\<close> resolves to an outline whose entries are, as a multiset, the
  entries of the arrays, each with its kind, location and name and with its own container
  name or the empty string; they are sorted by range start position; and the errors of the
  failed calls reach the sink of unexpected errors and nothing else.
\<close>

theorem getDocumentSymbols_isolates_failures:
  assumes "mset (settle_order (map (\<lambda>support. support model) (registry_all model))) =
           mset (map (\<lambda>support. support model) (registry_all model))"
    and "list_all (\<lambda>out. \<not> too_long max_arguments out \<and> list_all located (provided out))
           (map (\<lambda>support. support model) (registry_all model))"
  shows "\<exists>outline.
     snd (getDocumentSymbols max_arguments settle_order registry_all model) = Inr outline
     \<and> mset (entries outline) =
         mset (map (\<lambda>entry. \<lparr>kind = kind entry, location = location entry, name = name entry,
                              containerName =
                                Some (case containerName entry of None \<Rightarrow> [] | Some c \<Rightarrow> c)\<rparr>)
           (entry_objects
              (concat (map provided (map (\<lambda>support. support model) (registry_all model))))))
     \<and> sorted_wrt starts_no_later (entries outline)
     \<and> mset (fst (getDocumentSymbols max_arguments settle_order registry_all model)) =
         mset (concat (map failure (map (\<lambda>support. support model) (registry_all model))))"
proof -
  let ?ps = "map (\<lambda>support. support model) (registry_all model)"
  let ?sps = "settle_order ?ps"
  let ?F = "\<lambda>entry. entry\<lparr>containerName := Some (or_label (containerName entry) [])\<rparr>"
  let ?E = "\<lambda>entry. \<lparr>kind = kind entry, location = location entry, name = name entry,
                        containerName =
                          Some (case containerName entry of None \<Rightarrow> [] | Some c \<Rightarrow> c)\<rparr>"
  have FE: "?F = ?E" by (rule ext) (rule flat_entry_explicit)
  from assms(1) have set_eq: "set ?sps = set ?ps" by (rule mset_eq_setD)
  with assms(2) have wf: "\<forall>out \<in> set ?sps. \<not> too_long max_arguments out \<and> list_all located (provided out)"
    by (simp add: list_all_iff)
  then have fit: "\<not> list_ex (too_long max_arguments) ?sps"
    by (simp add: list_ex_iff)
  from wf have loc: "list_all located (concat (map provided ?sps))"
    by (auto simp: list_all_iff)
  let ?objs = "entry_objects (concat (map provided ?sps))"
  from those_located [OF loc] have th: "those (concat (map provided ?sps)) = Some ?objs" .
  from start_of_located [OF loc] have "list_all (\<lambda>entry. start_of entry \<noteq> None) ?objs" .
  then have "list_all (\<lambda>entry. start_of entry \<noteq> None) (flatten [] ?objs [])"
    by (simp add: flatten_map list_all_iff start_of_flat)
  from sort_by_sorted [OF this] obtain r where
    r: "sort_by compareEntriesUsingStart (flatten [] ?objs []) = Inr r"
    "mset r = mset (flatten [] ?objs [])" "sorted_wrt starts_no_later r"
    by blast
  have res: "snd (getDocumentSymbols max_arguments settle_order registry_all model) =
               Inr \<lparr>entries = r\<rparr>"
    using fit th r(1) by (simp add: getDocumentSymbols_value)
  have c: "map ?F (entry_objects (concat (map provided xs))) =
           concat (map (\<lambda>out. map ?F (entry_objects (provided out))) xs)" for xs
    by (induction xs) (simp_all add: entry_objects_append)
  have "mset (concat (map (\<lambda>out. map ?F (entry_objects (provided out))) ?sps)) =
        mset (concat (map (\<lambda>out. map ?F (entry_objects (provided out))) ?ps))"
    using assms(1) by (rule mset_concat_map_cong)
  then have m1: "mset (map ?F ?objs) =
             mset (map ?F (entry_objects (concat (map provided ?ps))))"
    unfolding c .
  have m0: "mset r = mset (map ?F ?objs)"
    using r(2) by (simp only: flatten_map append_Nil)
  from m0 m1 have "mset r = mset (map ?F (entry_objects (concat (map provided ?ps))))"
    by (rule trans)
  then have m: "mset r = mset (map ?E (entry_objects (concat (map provided ?ps))))"
    by (simp only: FE)
  have f: "mset (fst (getDocumentSymbols max_arguments settle_order registry_all model)) =
           mset (concat (map failure ?ps))"
    unfolding getDocumentSymbols_sink using assms(1) by (rule mset_concat_map_cong)
  from res m r(3) f show ?thesis by (simp del: mset_map map_map)
qed


theorem getDocumentSymbols_isolates_failures_witness:
  "mset (rev (map (\<lambda>support. support ()) (example_providers ()))) = mset (map (\<lambda>support. support ()) (example_providers ()))
   \<and> list_all (\<lambda>out. \<not> too_long 125000 out \<and> list_all located (provided out)) (map (\<lambda>support. support ()) (example_providers ()))
   \<and> (\<exists>outline.
        snd (getDocumentSymbols 125000 rev example_providers ()) = Inr outline
        \<and> entries outline =
            [entry_at 3 ''foo'' (Some []), entry_at 5 ''bar'' (Some ''Box''),
             entry_at 7 ''baz'' (Some [])]
        \<and> sorted_wrt starts_no_later (entries outline)
        \<and> mset (fst (getDocumentSymbols 125000 rev example_providers ())) = {#Error ''boom''#})"
proof -
  have h1: "mset (rev (map (\<lambda>support. support ()) (example_providers ()))) = mset (map (\<lambda>support. support ()) (example_providers ()))" by simp
  have h2: "list_all (\<lambda>out. \<not> too_long 125000 out \<and> list_all located (provided out)) (map (\<lambda>support. support ()) (example_providers ()))"
    by (simp add: example_providers_def too_long_def located_def entry_at_def)
  have v: "snd (getDocumentSymbols 125000 rev example_providers ()) =
             Inr \<lparr>entries = [entry_at 3 ''foo'' (Some []), entry_at 5 ''bar'' (Some ''Box''),
                              entry_at 7 ''baz'' (Some [])]\<rparr>"
    by (simp add: getDocumentSymbols_def example_providers_def entry_at_def or_label_def
        compareEntriesUsingStart_def compareRangesUsingStarts_def lift_def)
  have f: "concat (map failure (map (\<lambda>support. support ()) (example_providers ()))) = [Error ''boom'']"
    by (simp add: example_providers_def)
  from getDocumentSymbols_isolates_failures [of rev "()" example_providers 125000, OF h1 h2]
  obtain outline where o: "snd (getDocumentSymbols 125000 rev example_providers ()) = Inr outline"
    "sorted_wrt starts_no_later (entries outline)"
    "mset (fst (getDocumentSymbols 125000 rev example_providers ())) = mset (concat (map failure (map (\<lambda>support. support ()) (example_providers ()))))"
    by blast
  from o(1) v have "entries outline =
            [entry_at 3 ''foo'' (Some []), entry_at 5 ''bar'' (Some ''Box''),
             entry_at 7 ''baz'' (Some [])]" by auto
  with o f h1 h2 show ?thesis by simp
qed

text \<open>
  The claim as stated fails when a provider resolves to an array that the aggregator
  cannot take: no provider call throws, rejects or resolves to something that is not an
  array, yet the promise is rejected, once because an entry is \<open>null\<close> and once because
  an array of 200000 entries is more than one call takes on an engine that allows 125000
  arguments.
\<close>

theorem getDocumentSymbols_rejects:
  "fst (getDocumentSymbols 125000 id null_entry_providers ()) = []
   \<and> snd (getDocumentSymbols 125000 id null_entry_providers ()) =
       Inl [TypeError ''Cannot read property kind of undefined'']
   \<and> fst (getDocumentSymbols 125000 id long_array_providers ()) = []
   \<and> snd (getDocumentSymbols 125000 id long_array_providers ()) =
       Inl [RangeError ''Maximum call stack size exceeded'']"
  by (simp add: getDocumentSymbols_def null_entry_providers_def long_array_providers_def)

text \<open>
  Claim C9. \<open>flatten\<close> leaves the bucket's earlier entries alone and appends one entry per
  input entry, in order, with the same kind, location and name; its container name is the
  entry's own when that is present and not empty, and the override label otherwise.
  \<open>getDocumentSymbols\<close> flattens with the empty string as the label: unless an array is
  too long for one call or an entry is not an object, its outcome is the outcome of
  sorting what \<open>flatten\<close> returns for the settled entries and the empty label.
\<close>

theorem flatten_keeps_entry_fields:
  "take (length bucket) (flatten bucket es label) = bucket
   \<and> list_all2
       (\<lambda>entry flat. kind flat = kind entry \<and> location flat = location entry
          \<and> name flat = name entry
          \<and> containerName flat =
              Some (case containerName entry of None \<Rightarrow> label
                    | Some c \<Rightarrow> if c = [] then label else c))
       es (drop (length bucket) (flatten bucket es label))
   \<and> snd (getDocumentSymbols max_arguments settle_order registry_all model) =
       (let ps = settle_order (map (\<lambda>support. support model) (registry_all model))
        in if list_ex (too_long max_arguments) ps
           then Inl (concat (map (\<lambda>out. if too_long max_arguments out
                                          then [RangeError ''Maximum call stack size exceeded'']
                                          else []) ps))
           else (case those (concat (map provided ps)) of
                   None \<Rightarrow> Inl [TypeError ''Cannot read property kind of undefined'']
                 | Some objs \<Rightarrow>
                     (case sort_by compareEntriesUsingStart (flatten [] objs []) of
                        Inl err \<Rightarrow> Inl [err]
                      | Inr sortedEntries \<Rightarrow> Inr \<lparr>entries = sortedEntries\<rparr>)))"
proof -
  have "list_all2
       (\<lambda>entry flat. kind flat = kind entry \<and> location flat = location entry
          \<and> name flat = name entry
          \<and> containerName flat =
              Some (case containerName entry of None \<Rightarrow> label
                    | Some c \<Rightarrow> if c = [] then label else c))
       es (drop (length bucket) (flatten bucket es label))"
    by (simp add: flatten_map list_all2_map2 or_label_def list.rel_refl split: option.splits)
  moreover have "take (length bucket) (flatten bucket es label) = bucket"
    by (simp add: flatten_map)
  ultimately show ?thesis
    using getDocumentSymbols_value [of max_arguments settle_order registry_all model]
    by (simp only: simp_thms)
qed

section \<open>Tree views\<close>

lemma createTreeNode_result:
  "\<exists>w'. createTreeNode base_item v w el x par =
          (w', TreeNode el par (length (objects w) + 1) None)
        \<and> objects w' = objects w @
            [base_item v el x par,
             (base_item v el x par)
               (''checked'' \<mapsto> (case x ''checked'' of None \<Rightarrow> Undefined | Some c \<Rightarrow> c)),
             [''checked'' \<mapsto> (case x ''checked'' of None \<Rightarrow> Undefined | Some c \<Rightarrow> c)]]
        \<and> proxy_calls w' = proxy_calls w \<and> provider_calls w' = provider_calls w
        \<and> console_error w' = console_error w"
  by (simp add: createTreeNode_def super_createTreeItem_def createTreeItem_def new_object_def
      Object_assign_def nth_append list_update_append get_prop_def)


















lemma string_of_number_key: "string_of_number h @ ''-'' @ cid \<noteq> cid"
proof
  assume "string_of_number h @ ''-'' @ cid = cid"
  then have "length (string_of_number h @ ''-'' @ cid) = length cid" by simp
  then show False by simp
qed

text \<open>
  The key that \<open>dispose\<close> deletes is never the key under which the view was registered:
  whatever the handle and the component id, the view stays in the registry.
\<close>

lemma dispose_keeps_registry_key:
  "dollar_createTreeView s h cid (Some \<lparr>treeDataProvider = Some p\<rparr>) = Inr (s1, tv) \<Longrightarrow>
   map_of (treeViews (TreeView_dispose tv s1)) (string_of_number h @ ''-'' @ cid) =
     Some (closure_treeView tv)"
  using string_of_number_key [of h cid]
  by (auto simp: dollar_createTreeView_def createExtHostTreeViewer_def TreeView_dispose_def
      Let_def update_conv' delete_conv')

text \<open>
  Claim C2. The claim asks that a disposed view is no longer reachable through the
  registry. On the code it is: the view created with handle 1 and component id \<open>c\<close> is
  registered under \<open>1-c\<close>, \<open>dispose\<close> deletes the key \<open>c\<close>, and afterwards
  \<open>$onNodeCheckedChanged\<close> addressed to \<open>1-c\<close> still calls the provider and \<open>$getChildren\<close>
  addressed to \<open>1-c\<close> is still answered by the view.
\<close>

theorem dispose_leaves_view_registered:
  "(case dollar_createTreeView empty_registry 1 ''c''
           (Some \<lparr>treeDataProvider = Some example_provider\<rparr>) of
      Inl err \<Rightarrow> False
    | Inr (s1, tv) \<Rightarrow>
        (let s2 = TreeView_dispose tv s1
         in map_of (treeViews s1) ''1-c'' = Some 0
            \<and> map_of (treeViews s2) ''1-c'' = Some 0
            \<and> dollar_onNodeCheckedChanged s2 example_world ''1-c'' (Some ''0/0:a'') (Some True) =
                (example_world
                   \<lparr>console_error :=
                      [''No tree item with id '' @ [CHR 0x27] @ ''0/0:a'' @ [CHR 0x27] @ '' found.''],
                    provider_calls := [OnNodeCheckedChanged Undefined (Some True)]\<rparr>,
                 None)
            \<and> snd (dollar_getChildren example_getChildren s2 example_world ''1-c'' None) = Inr []))"
  by (simp add: dollar_createTreeView_def createExtHostTreeViewer_def empty_registry_def
      TreeView_dispose_def string_of_number_def string_of_nat.simps new_ExtHostTreeView_def
      dispose_def clearAll_def dollar_onNodeCheckedChanged_def onNodeCheckedChanged_def
      truthy_handle_def getExtensionElement_def example_provider_def example_world_def
      dollar_getChildren_def example_getChildren_def)

text \<open>
  Claim C3. When some element of a refresh is falsy (the root), the cache is emptied and the
  host proxy is called once, with the view's handle and component id and without items,
  whatever else the batch holds; no provider is called and no object is created, so no
  handle is refreshed on its own.
\<close>

theorem refresh_root_clears_and_redraws:
  assumes "list_ex (\<lambda>el. \<not> truthy el) els"
  shows "refresh base_item v w els =
           (v\<lparr>elements := [], nodes := []\<rparr>,
            w\<lparr>proxy_calls :=
                 proxy_calls w @ [RefreshDataProvider (handle v) (componentId v) None]\<rparr>)
         \<and> provider_calls (snd (refresh base_item v w els)) = provider_calls w
         \<and> objects (snd (refresh base_item v w els)) = objects w"
  using assms by (simp add: refresh_def clearAll_def)

theorem refresh_root_clears_and_redraws_witness:
  "list_ex (\<lambda>el. \<not> truthy el) [Str ''a'', Undefined, Str ''b'']
   \<and> refresh example_base example_view example_world [Str ''a'', Undefined, Str ''b''] =
           (example_view\<lparr>elements := [], nodes := []\<rparr>,
            example_world\<lparr>proxy_calls := [RefreshDataProvider 1 ''c'' None]\<rparr>)
   \<and> provider_calls
        (snd (refresh example_base example_view example_world [Str ''a'', Undefined, Str ''b''])) = []"
  using refresh_root_clears_and_redraws
    [of "[Str ''a'', Undefined, Str ''b'']" example_base example_view example_world]
  by (simp add: example_view_def example_world_def)



text \<open>
  Claim C5. Refreshing the node of a cached element, whatever the provider answers: the
  node stored under the element afterwards has the parent of the node that was there
  before, the handle still resolves to the element and the element to the handle, and the
  cache has the same keys. When the provider returns a tree item, \<open>refreshNode\<close> resolves
  to the stored node, which is built from that tree item for the same element; otherwise
  the node is left as it was.
\<close>

theorem refreshNode_keeps_parent:
  assumes "map_of (elements v) treeItemHandle = Some el"
    and "map_of (nodes v) el = Some existing"
  shows "\<exists>v' w' res stored.
           refreshNode base_item v w treeItemHandle = ((v', w'), res)
           \<and> map_of (nodes v') el = Some stored
           \<and> parent stored = parent existing
           \<and> elements v' = elements v
           \<and> map_of (elements v') treeItemHandle = Some el
           \<and> getHandle v' el = getHandle v el
           \<and> map fst (nodes v') = map fst (nodes v)
           \<and> (\<forall>x. getTreeItem (componentDataProvider v) el = Resolves (Some x) \<longrightarrow>
                  res = Inr (Some stored) \<and> element stored = el
                  \<and> objects w' ! item stored =
                      (base_item v el x (parent existing))
                        (''checked'' \<mapsto> (case x ''checked'' of None \<Rightarrow> Undefined | Some c \<Rightarrow> c)))
           \<and> ((\<forall>x. getTreeItem (componentDataProvider v) el \<noteq> Resolves (Some x)) \<longrightarrow>
                  stored = existing \<and> res \<noteq> Inr (Some stored))"
proof (cases "getTreeItem (componentDataProvider v) el")
  case (Throws err)
  with assms show ?thesis
    by (simp add: refreshNode_def getExtensionElement_def)
next
  case (Rejects err)
  with assms show ?thesis
    by (simp add: refreshNode_def getExtensionElement_def)
next
  case (Resolves r)
  show ?thesis
  proof (cases r)
    case None
    with Resolves assms show ?thesis
      by (simp add: refreshNode_def getExtensionElement_def)
  next
    case (Some x)
    let ?w1 = "w\<lparr>provider_calls := provider_calls w @ [GetTreeItem el]\<rparr>"
    obtain w2 where c: "createTreeNode base_item v ?w1 el x (parent existing) =
          (w2, TreeNode el (parent existing) (length (objects w) + 1) None)"
      and o: "objects w2 = objects w @
            [base_item v el x (parent existing),
             (base_item v el x (parent existing))
               (''checked'' \<mapsto> (case x ''checked'' of None \<Rightarrow> Undefined | Some c \<Rightarrow> c)),
             [''checked'' \<mapsto> (case x ''checked'' of None \<Rightarrow> Undefined | Some c \<Rightarrow> c)]]"
      using createTreeNode_result [of base_item v ?w1 el x "parent existing"] by auto
    have k: "el \<in> fst ` set (nodes v)"
      using assms(2) by (force dest: map_of_SomeD)
    show ?thesis
      using assms c o k Resolves Some
      by (simp add: refreshNode_def getExtensionElement_def updateNodeCache_def getHandle_def
          update_conv' AList.update_keys nth_append)
  qed
qed

theorem refreshNode_keeps_parent_witness:
  "map_of (elements child_view) ''0/0:a/0:b'' = Some (Str ''b'')
   \<and> map_of (nodes child_view) (Str ''b'') =
       Some (TreeNode (Str ''b'') (Some (TreeNode (Str ''a'') None 0 None)) 1 None)
   \<and> getTreeItem (componentDataProvider child_view) (Str ''b'') =
       Resolves (Some [''label'' \<mapsto> Str ''B'', ''checked'' \<mapsto> Bool False])
   \<and> (\<exists>v' w' stored.
         refreshNode example_base child_view example_world ''0/0:a/0:b'' =
           ((v', w'), Inr (Some stored))
         \<and> map_of (nodes v') (Str ''b'') = Some stored
         \<and> parent stored = Some (TreeNode (Str ''a'') None 0 None)
         \<and> element stored = Str ''b''
         \<and> objects w' ! item stored = [''label'' \<mapsto> Str ''B'', ''checked'' \<mapsto> Bool False]
         \<and> map_of (elements v') ''0/0:a/0:b'' = Some (Str ''b''))"
proof -
  have h1: "map_of (elements child_view) ''0/0:a/0:b'' = Some (Str ''b'')"
    by (simp add: child_view_def)
  have h2: "map_of (nodes child_view) (Str ''b'') =
       Some (TreeNode (Str ''b'') (Some (TreeNode (Str ''a'') None 0 None)) 1 None)"
    by (simp add: child_view_def)
  have h3: "getTreeItem (componentDataProvider child_view) (Str ''b'') =
       Resolves (Some [''label'' \<mapsto> Str ''B'', ''checked'' \<mapsto> Bool False])"
    by (simp add: child_view_def)
  have b: "(example_base child_view (Str ''b'')
              [''label'' \<mapsto> Str ''B'', ''checked'' \<mapsto> Bool False]
              (Some (TreeNode (Str ''a'') None 0 None)))
             (''checked'' \<mapsto>
                (case [''label'' \<mapsto> Str ''B'', ''checked'' \<mapsto> Bool False] ''checked'' of
                   None \<Rightarrow> Undefined | Some c \<Rightarrow> c))
           = [''label'' \<mapsto> Str ''B'', ''checked'' \<mapsto> Bool False]"
    by (simp add: example_base_def get_prop_def)
  from refreshNode_keeps_parent [OF h1 h2, where base_item = example_base and w = example_world]
    h3
  have "\<exists>v' w' stored.
         refreshNode example_base child_view example_world ''0/0:a/0:b'' =
           ((v', w'), Inr (Some stored))
         \<and> map_of (nodes v') (Str ''b'') = Some stored
         \<and> parent stored = Some (TreeNode (Str ''a'') None 0 None)
         \<and> element stored = Str ''b''
         \<and> objects w' ! item stored = [''label'' \<mapsto> Str ''B'', ''checked'' \<mapsto> Bool False]
         \<and> map_of (elements v') ''0/0:a/0:b'' = Some (Str ''b'')"
    using b by auto
  with h1 h2 h3 show ?thesis by (intro conjI)
qed

text \<open>
  Claim C6. \<open>reveal\<close> on a view whose provider has no \<open>getParent\<close> function rejects with
  the error that says \<open>getParent\<close> is required, for every element and whatever the base
  class would do; the view, its cache and the record of provider calls are unchanged.
\<close>

theorem reveal_without_getParent:
  assumes "getParent (componentDataProvider v) = None"
  shows "reveal resolveUnknownParentChain resolveTreeNode v w el select =
     ((v, w), Inl (Error (''Required registered TreeDataProvider to implement ''
              @ [CHR 0x27] @ ''getParent'' @ [CHR 0x27] @ '' method to access ''
              @ [CHR 0x27] @ ''reveal'' @ [CHR 0x27] @ '' method'')))"
  using assms by (simp add: reveal_def)

theorem reveal_without_getParent_witness:
  "getParent (componentDataProvider example_view) = None
   \<and> reveal example_parentChain example_treeNode example_view example_world (Str ''b'') (Some True) =
     ((example_view, example_world),
      Inl (Error (''Required registered TreeDataProvider to implement ''
              @ [CHR 0x27] @ ''getParent'' @ [CHR 0x27] @ '' method to access ''
              @ [CHR 0x27] @ ''reveal'' @ [CHR 0x27] @ '' method'')))"
proof -
  have h: "getParent (componentDataProvider example_view) = None"
    by (simp add: example_view_def example_provider_def)
  from h reveal_without_getParent [OF h] show ?thesis by simp
qed

text \<open>
  Claim C7. \<open>$getChildren\<close> with a view id that is not a key of the registry rejects with
  the error whose message is the not-registered message with the view id in it; nothing
  changes and the base class is not reached.
\<close>

theorem getChildren_unregistered:
  assumes "map_of (treeViews s) treeViewId = None"
  shows "dollar_getChildren base_getChildren s w treeViewId treeItemHandle =
     ((s, w), Inl (Error (''No tree view with id '' @ [CHR 0x27] @ treeViewId @ [CHR 0x27]
                          @ '' registered.'')))"
  using assms by (simp add: dollar_getChildren_def localize_def)

theorem getChildren_unregistered_witness:
  "map_of (treeViews example_registry) ''v1'' = None
   \<and> dollar_getChildren example_getChildren example_registry example_world ''v1'' None =
       ((example_registry, example_world),
        Inl (Error (''No tree view with id '' @ [CHR 0x27] @ ''v1'' @ [CHR 0x27] @ '' registered.'')))"
proof -
  have h: "map_of (treeViews example_registry) ''v1'' = None"
    by (simp add: example_registry_def)
  from h getChildren_unregistered [OF h] show ?thesis by simp
qed




text \<open>
  Claim C10. \<open>createTreeItem\<close> returns a new object, different from the one the base
  projection built and from every object that existed before; the base item still has
  exactly the properties the base projection gave it; the new object has those properties
  and \<open>checked\<close>, whose value is the value of the extension tree item's \<open>checked\<close>
  property (\<open>undefined\<close> when it has none); the objects that existed before are unchanged
  and nothing else happens.
\<close>

theorem createTreeItem_adds_checked:
  "(case super_createTreeItem base_item v w el x par of
      (w1, base) \<Rightarrow>
        (case createTreeItem base_item v w el x par of
           (w', r) \<Rightarrow>
             r \<noteq> base \<and> length (objects w) \<le> base \<and> length (objects w) \<le> r
             \<and> r < length (objects w')
             \<and> objects w1 ! base = base_item v el x par
             \<and> objects w' ! base = base_item v el x par
             \<and> objects w' ! r =
                 (base_item v el x par)
                   (''checked'' \<mapsto> (case x ''checked'' of None \<Rightarrow> Undefined | Some c \<Rightarrow> c))
             \<and> take (length (objects w)) (objects w') = objects w
             \<and> proxy_calls w' = proxy_calls w \<and> provider_calls w' = provider_calls w
             \<and> console_error w' = console_error w))"
  by (simp add: super_createTreeItem_def createTreeItem_def new_object_def Object_assign_def
      nth_append get_prop_def)

theorem createTreeItem_adds_checked_witness:
  "(case createTreeItem example_base example_view example_world (Str ''a'')
           [''label'' \<mapsto> Str ''A'', ''checked'' \<mapsto> Bool True] None of
      (w', r) \<Rightarrow>
        r = 3 \<and> objects w' ! 2 = [''label'' \<mapsto> Str ''A'']
        \<and> objects w' ! r = [''label'' \<mapsto> Str ''A'', ''checked'' \<mapsto> Bool True]
        \<and> take 2 (objects w') = objects example_world)
   \<and> (case createTreeItem example_base example_view example_world (Str ''a'')
           [''label'' \<mapsto> Str ''A''] None of
      (w', r) \<Rightarrow>
        objects w' ! r = [''label'' \<mapsto> Str ''A'', ''checked'' \<mapsto> Undefined])"
proof -
  have l: "length (objects example_world) = 2" by (simp add: example_world_def)
  have b: "example_base example_view (Str ''a'') [''label'' \<mapsto> Str ''A'', ''checked'' \<mapsto> Bool True] None
             = [''label'' \<mapsto> Str ''A'']"
    "example_base example_view (Str ''a'') [''label'' \<mapsto> Str ''A''] None = [''label'' \<mapsto> Str ''A'']"
    by (simp_all add: example_base_def get_prop_def)
  have 1: "(case createTreeItem example_base example_view example_world (Str ''a'')
           [''label'' \<mapsto> Str ''A'', ''checked'' \<mapsto> Bool True] None of
      (w', r) \<Rightarrow>
        r = 3 \<and> objects w' ! 2 = [''label'' \<mapsto> Str ''A'']
        \<and> objects w' ! r = [''label'' \<mapsto> Str ''A'', ''checked'' \<mapsto> Bool True]
        \<and> take 2 (objects w') = objects example_world)"
    using createTreeItem_adds_checked [where base_item = example_base and v = example_view
        and w = example_world and el = "Str ''a''"
        and x = "[''label'' \<mapsto> Str ''A'', ''checked'' \<mapsto> Bool True]" and par = None] l b
    by (auto simp: super_createTreeItem_def new_object_def createTreeItem_def Let_def
        split: prod.splits)
  have 2: "(case createTreeItem example_base example_view example_world (Str ''a'')
           [''label'' \<mapsto> Str ''A''] None of
      (w', r) \<Rightarrow>
        objects w' ! r = [''label'' \<mapsto> Str ''A'', ''checked'' \<mapsto> Undefined])"
    using createTreeItem_adds_checked [where base_item = example_base and v = example_view
        and w = example_world and el = "Str ''a''"
        and x = "[''label'' \<mapsto> Str ''A'']" and par = None] l b
    by (auto simp: super_createTreeItem_def new_object_def createTreeItem_def Let_def
        split: prod.splits)
  from 1 2 show ?thesis by (rule conjI)
qed

end
